theory Spec2Isabelle
  imports Main
begin

section \<open>JavaScript values, objects and the caller's store\<close>

text \<open>
  The module \<^verbatim>\<open>src/openai/mod.ts\<close> reads a document generated by Typia and builds two
  object literals from it. Objects the caller owns (the schema bodies) are known by their
  address in a store, so that handing one on is visibly different from copying it; the
  object literals the module itself creates are written out as \<open>JObj\<close> values.
  An object is the list of its own enumerable string-keyed properties in the order in
  which they were created; a key may be bound to \<open>JUndefined\<close>, which is not the same as
  the key missing from the list.
  Numbers only occur inside schema bodies, which the module never inspects.
\<close>

type_synonym addr = nat

datatype jsval =
    JUndefined
  | JNull
  | JBool bool
  | JNum int
  | JStr string
  | JRef addr
  | JObj "(string \<times> jsval) list"

type_synonym jsobject = "(string \<times> jsval) list"

type_synonym store = "addr \<Rightarrow> jsobject"

text \<open>A thrown \<^verbatim>\<open>new Error(msg)\<close>, and the engine's own \<^verbatim>\<open>TypeError\<close>.\<close>

datatype error = Error string | TypeError string

text \<open>The two failures under the names the specification gives them.\<close>

abbreviation MissingSchemaMap :: error where
  "MissingSchemaMap \<equiv> Error ''json_schema.components.schemas is null''"

abbreviation NoSchemaFound :: error where
  "NoSchemaFound \<equiv> Error ''name is null''"

text \<open>Reading a property \<^verbatim>\<open>o.k\<close> of an object: a missing key reads as \<^verbatim>\<open>undefined\<close>.\<close>

definition get_prop :: "jsobject \<Rightarrow> string \<Rightarrow> jsval" where
  "get_prop ps k = (case map_of ps k of None \<Rightarrow> JUndefined | Some v \<Rightarrow> v)"

subsection \<open>\<^verbatim>\<open>Object.keys\<close> and \<^verbatim>\<open>Array.prototype.at\<close>\<close>

text \<open>
  \<^verbatim>\<open>Object.keys\<close> lists the own enumerable string keys in the engine's property order:
  first the keys that are array indices (the canonical decimal spelling of an integer
  from 0 to \<open>2^32 - 2\<close>) in ascending numeric order, then every other key in the order of
  creation.
\<close>

definition is_digit :: "char \<Rightarrow> bool" where
  "is_digit c = (c \<in> set ''0123456789'')"

definition digit_value :: "char \<Rightarrow> nat" where
  "digit_value c = of_char c - 48"

definition index_value :: "string \<Rightarrow> nat" where
  "index_value s = foldl (\<lambda>n c. 10 * n + digit_value c) 0 s"

definition is_array_index :: "string \<Rightarrow> bool" where
  "is_array_index s =
     (s \<noteq> [] \<and> list_all is_digit s \<and> (s = ''0'' \<or> hd s \<noteq> CHR ''0'')
      \<and> index_value s \<le> 4294967294)"

definition Object_keys :: "(string \<times> 'a) list \<Rightarrow> string list" where
  "Object_keys ps =
     (let ks = map fst ps
      in sort_key index_value (filter is_array_index ks)
         @ filter (\<lambda>k. \<not> is_array_index k) ks)"

text \<open>
  \<^verbatim>\<open>xs.at(i)\<close> takes the relative index \<open>k\<close>, which is \<open>i\<close> itself or, for a
  negative \<open>i\<close>, \<open>len + i\<close>; outside the array the result is \<^verbatim>\<open>undefined\<close>, written
  \<open>None\<close> here.
\<close>

definition at_index :: "'a list \<Rightarrow> int \<Rightarrow> 'a option" where
  "at_index xs i =
     (let len = int (length xs);
          k = (if 0 \<le> i then i else len + i)
      in if k < 0 \<or> len \<le> k then None else Some (xs ! nat k))"

section \<open>The parameters\<close>

text \<open>
  \<^verbatim>\<open>components.schemas\<close> is optional in Typia's type and the module also tests it for
  \<^verbatim>\<open>null\<close>; when present it is a \<^verbatim>\<open>Record<string, IJsonSchema>\<close>, each value an object of
  the caller's.
\<close>

datatype schemas_field =
    SchemasUndefined
  | SchemasNull
  | SchemasObj "(string \<times> addr) list"

record IComponents =
  schemas :: schemas_field

record IJsonApplication =
  components :: IComponents

text \<open>
  \<^verbatim>\<open>strict?: boolean | null\<close>: \<open>None\<close> is the key left out of the parameter object,
  \<open>Some v\<close> the key bound to \<open>v\<close>.
\<close>

record TypiaJsonToOpenAIJsonSchemaParams =
  jsonSchema :: IJsonApplication
  strict :: "jsval option"

text \<open>The destructuring \<^verbatim>\<open>{ jsonSchema, strict }\<close> binds a missing key to \<^verbatim>\<open>undefined\<close>.\<close>

definition destructured :: "jsval option \<Rightarrow> jsval" where
  "destructured f = (case f of None \<Rightarrow> JUndefined | Some v \<Rightarrow> v)"

section \<open>The two exported functions\<close>

definition typiaJsonToOpenAIJsonSchema ::
    "store \<Rightarrow> TypiaJsonToOpenAIJsonSchemaParams \<Rightarrow> error + jsobject" where
  "typiaJsonToOpenAIJsonSchema h params =
     (case schemas (components (jsonSchema params)) of
        SchemasUndefined \<Rightarrow> Inl (Error ''json_schema.components.schemas is null'')
      | SchemasNull \<Rightarrow> Inl (Error ''json_schema.components.schemas is null'')
      | SchemasObj ps \<Rightarrow>
          (case at_index (Object_keys ps) 0 of
             None \<Rightarrow> Inl (Error ''name is null'')
           | Some name \<Rightarrow>
               (case map_of ps name of
                  None \<Rightarrow> Inl (TypeError ''Cannot read properties of undefined'')
                | Some targetSchema \<Rightarrow>
                    Inr [(''name'', JStr name),
                         (''schema'', JRef targetSchema),
                         (''description'', get_prop (h targetSchema) ''description''),
                         (''strict'', destructured (strict params))])))"

definition typiaJsonToOpenAIResponse ::
    "store \<Rightarrow> TypiaJsonToOpenAIJsonSchemaParams \<Rightarrow> error + jsobject" where
  "typiaJsonToOpenAIResponse h params =
     (case typiaJsonToOpenAIJsonSchema h params of
        Inl e \<Rightarrow> Inl e
      | Inr json_schema \<Rightarrow>
          Inr [(''type'', JStr ''json_schema''), (''json_schema'', JObj json_schema)])"

text \<open>
  The addresses of the schema bodies a parameter object refers to: everything of the
  caller's store that belongs to the input.
\<close>

definition body_refs :: "TypiaJsonToOpenAIJsonSchemaParams \<Rightarrow> addr set" where
  "body_refs p =
     (case schemas (components (jsonSchema p)) of
        SchemasObj ps \<Rightarrow> snd ` set ps
      | _ \<Rightarrow> {})"

section \<open>Example inputs\<close>

text \<open>
  A parameter object with the given \<^verbatim>\<open>components.schemas\<close> and \<^verbatim>\<open>strict\<close>, and a store
  holding two schema bodies: the one at address 1 has a top-level description, the one at
  address 2 has none.
\<close>

definition mk_params :: "schemas_field \<Rightarrow> jsval option \<Rightarrow> TypiaJsonToOpenAIJsonSchemaParams" where
  "mk_params s f = \<lparr>jsonSchema = \<lparr>components = \<lparr>schemas = s\<rparr>\<rparr>, strict = f\<rparr>"

definition example_store :: store where
  "example_store a =
     (if a = 1 then [(''type'', JStr ''object''), (''properties'', JRef 3),
                     (''description'', JStr ''an output'')]
      else if a = 2 then [(''type'', JStr ''object''), (''properties'', JRef 4)]
      else [])"

section \<open>Facts about the key order and the projection\<close>

lemma at_index_0: "at_index xs 0 = (case xs of [] \<Rightarrow> None | x # _ \<Rightarrow> Some x)"
  by (cases xs) (simp_all add: at_index_def)

lemma set_Object_keys: "set (Object_keys ps) = fst ` set ps"
  by (auto simp: Object_keys_def Let_def)

lemma Object_keys_Nil_iff: "Object_keys ps = [] \<longleftrightarrow> ps = []"
proof
  assume "Object_keys ps = []"
  then have "set (Object_keys ps) = {}" by simp
  then show "ps = []" by (simp add: set_Object_keys)
next
  assume "ps = []"
  then show "Object_keys ps = []" by (simp add: Object_keys_def)
qed

lemma Object_keys_no_index:
  "list_all (\<lambda>k. \<not> is_array_index k) (map fst ps) \<Longrightarrow> Object_keys ps = map fst ps"
  by (simp add: Object_keys_def Let_def list_all_iff filter_empty_conv)

lemma hd_sort_key_least:
  assumes "xs \<noteq> []"
  shows "hd (sort_key f xs) \<in> set xs \<and> (\<forall>x\<in>set xs. f (hd (sort_key f xs)) \<le> f x)"
proof -
  let ?ys = "sort_key f xs"
  have ne: "?ys \<noteq> []" using assms by (metis length_0_conv length_sort)
  then obtain y rest where ys: "?ys = y # rest" by (cases ?ys) auto
  have "sorted (map f ?ys)" by (rule sorted_sort_key)
  with ys have "\<forall>x\<in>set ?ys. f y \<le> f x" by auto
  moreover have "set ?ys = set xs" by simp
  moreover have "y \<in> set ?ys" using ys by simp
  ultimately show ?thesis using ys by auto
qed

lemma hd_Object_keys_index:
  assumes "\<exists>k\<in>fst ` set ps. is_array_index k"
  shows "is_array_index (hd (Object_keys ps)) \<and> hd (Object_keys ps) \<in> fst ` set ps
         \<and> (\<forall>k\<in>fst ` set ps. is_array_index k \<longrightarrow> index_value (hd (Object_keys ps)) \<le> index_value k)"
proof -
  let ?is = "filter is_array_index (map fst ps)"
  have ne: "?is \<noteq> []" using assms by (auto simp: filter_empty_conv)
  then have "sort_key index_value ?is \<noteq> []" by (metis length_0_conv length_sort)
  then have "hd (Object_keys ps) = hd (sort_key index_value ?is)"
    by (simp add: Object_keys_def Let_def)
  with hd_sort_key_least [OF ne, of index_value] show ?thesis by auto
qed

lemma project_success:
  assumes "schemas (components (jsonSchema p)) = SchemasObj ps" and "ps \<noteq> []"
  shows "\<exists>name a. at_index (Object_keys ps) 0 = Some name \<and> name = hd (Object_keys ps)
           \<and> map_of ps name = Some a
           \<and> typiaJsonToOpenAIJsonSchema h p =
               Inr [(''name'', JStr name), (''schema'', JRef a),
                    (''description'', get_prop (h a) ''description''),
                    (''strict'', destructured (strict p))]"
proof -
  from assms(2) have "Object_keys ps \<noteq> []" by (simp add: Object_keys_Nil_iff)
  then obtain name rest where ks: "Object_keys ps = name # rest"
    by (cases "Object_keys ps") auto
  then have "name \<in> set (Object_keys ps)" by simp
  then have "name \<in> fst ` set ps" by (simp add: set_Object_keys)
  then obtain a where a: "map_of ps name = Some a"
    by (metis domD dom_map_of_conv_image_fst)
  show ?thesis
    using ks a assms(1) by (simp add: typiaJsonToOpenAIJsonSchema_def at_index_0)
qed

lemma project_InrD:
  assumes "typiaJsonToOpenAIJsonSchema h p = Inr r"
  shows "\<exists>ps name a. schemas (components (jsonSchema p)) = SchemasObj ps
           \<and> at_index (Object_keys ps) 0 = Some name \<and> map_of ps name = Some a
           \<and> r = [(''name'', JStr name), (''schema'', JRef a),
                  (''description'', get_prop (h a) ''description''),
                  (''strict'', destructured (strict p))]"
  using assms
  by (auto simp: typiaJsonToOpenAIJsonSchema_def
           split: schemas_field.splits option.splits)

lemma project_missing:
  "schemas (components (jsonSchema p)) = SchemasUndefined
     \<or> schemas (components (jsonSchema p)) = SchemasNull
   \<Longrightarrow> typiaJsonToOpenAIJsonSchema h p = Inl MissingSchemaMap"
  by (auto simp: typiaJsonToOpenAIJsonSchema_def)

lemma project_empty:
  "schemas (components (jsonSchema p)) = SchemasObj []
   \<Longrightarrow> typiaJsonToOpenAIJsonSchema h p = Inl NoSchemaFound"
  by (simp add: typiaJsonToOpenAIJsonSchema_def Object_keys_def at_index_def)

lemma project_cases:
  "(\<exists>e. typiaJsonToOpenAIJsonSchema h p = Inl e \<and> (e = MissingSchemaMap \<or> e = NoSchemaFound))
   \<or> (\<exists>r. typiaJsonToOpenAIJsonSchema h p = Inr r)"
proof (cases "schemas (components (jsonSchema p))")
  case SchemasUndefined
  then show ?thesis using project_missing [of p h] by simp
next
  case SchemasNull
  then show ?thesis using project_missing [of p h] by simp
next
  case (SchemasObj ps)
  show ?thesis
  proof (cases "ps = []")
    case True
    with SchemasObj show ?thesis using project_empty [of p h] by simp
  next
    case False
    from project_success [OF SchemasObj False, of h] show ?thesis by blast
  qed
qed

lemma project_store_frame:
  assumes "\<forall>a\<in>body_refs p. h' a = h a"
  shows "typiaJsonToOpenAIJsonSchema h' p = typiaJsonToOpenAIJsonSchema h p"
proof (cases "schemas (components (jsonSchema p))")
  case SchemasUndefined
  then show ?thesis by (simp add: typiaJsonToOpenAIJsonSchema_def)
next
  case SchemasNull
  then show ?thesis by (simp add: typiaJsonToOpenAIJsonSchema_def)
next
  case (SchemasObj ps)
  show ?thesis
  proof (cases "ps = []")
    case True
    with SchemasObj show ?thesis
      using project_empty [of p h] project_empty [of p h'] by simp
  next
    case False
    from project_success [OF SchemasObj False, of h] obtain name a where
      n: "name = hd (Object_keys ps)" and a: "map_of ps name = Some a" and
      r: "typiaJsonToOpenAIJsonSchema h p =
            Inr [(''name'', JStr name), (''schema'', JRef a),
                 (''description'', get_prop (h a) ''description''),
                 (''strict'', destructured (strict p))]"
      by blast
    from project_success [OF SchemasObj False, of h'] n a have
      r': "typiaJsonToOpenAIJsonSchema h' p =
            Inr [(''name'', JStr name), (''schema'', JRef a),
                 (''description'', get_prop (h' a) ''description''),
                 (''strict'', destructured (strict p))]"
      by auto
    from a have "(name, a) \<in> set ps" by (rule map_of_SomeD)
    then have "a \<in> body_refs p" using SchemasObj by (force simp: body_refs_def)
    with assms have "h' a = h a" by blast
    with r r' show ?thesis by simp
  qed
qed

lemmas key_eval = Object_keys_def Let_def is_array_index_def is_digit_def index_value_def digit_value_def

lemmas run_eval =
  typiaJsonToOpenAIJsonSchema_def typiaJsonToOpenAIResponse_def mk_params_def
  example_store_def key_eval at_index_def get_prop_def destructured_def

section \<open>The claims\<close>

text \<open>
  C1: for a document whose schema mapping is the single entry \<open>Output\<close>, bound to a
  body with the top-level description \<open>an output\<close>, and \<open>strict = true\<close>, the
  projection returns the record with name \<open>Output\<close>, that description, \<open>strict\<close>
  true, and as its \<open>schema\<close> field the body itself: the same address \<open>a\<close> the mapping
  holds, not a copy.
\<close>

theorem C1_happy_path:
  assumes "schemas (components (jsonSchema p)) = SchemasObj [(''Output'', a)]"
    and "map_of (h a) ''description'' = Some (JStr ''an output'')"
    and "strict p = Some (JBool True)"
  shows "typiaJsonToOpenAIJsonSchema h p =
           Inr [(''name'', JStr ''Output''), (''schema'', JRef a),
                (''description'', JStr ''an output''), (''strict'', JBool True)]"
  using assms
  by (simp add: typiaJsonToOpenAIJsonSchema_def key_eval at_index_def get_prop_def
                destructured_def)

text \<open>The hypotheses of C1 hold for the example store and the body at address 1.\<close>

theorem C1_happy_path_witness:
  "schemas (components (jsonSchema (mk_params (SchemasObj [(''Output'', 1)]) (Some (JBool True)))))
     = SchemasObj [(''Output'', 1)]
   \<and> map_of (example_store 1) ''description'' = Some (JStr ''an output'')
   \<and> strict (mk_params (SchemasObj [(''Output'', 1)]) (Some (JBool True))) = Some (JBool True)
   \<and> typiaJsonToOpenAIJsonSchema example_store
         (mk_params (SchemasObj [(''Output'', 1)]) (Some (JBool True))) =
       Inr [(''name'', JStr ''Output''), (''schema'', JRef 1),
            (''description'', JStr ''an output''), (''strict'', JBool True)]"
proof -
  let ?p = "mk_params (SchemasObj [(''Output'', 1)]) (Some (JBool True))"
  have s: "schemas (components (jsonSchema ?p)) = SchemasObj [(''Output'', 1)]"
    by (simp add: mk_params_def)
  have d: "map_of (example_store 1) ''description'' = Some (JStr ''an output'')"
    by (simp add: example_store_def)
  have f: "strict ?p = Some (JBool True)"
    by (simp add: mk_params_def)
  from C1_happy_path [where h = example_store and a = 1 and p = ?p, OF s d f] s d f
  show ?thesis by simp
qed

text \<open>
  C2, as stated, says that the first key in insertion order is selected. With the keys
  inserted in the order \<open>B\<close>, \<open>0\<close> the selected name is \<open>0\<close>: \<^verbatim>\<open>Object.keys\<close> lists
  array-index keys before all others.
\<close>

theorem C2_insertion_order_counterexample:
  "typiaJsonToOpenAIJsonSchema example_store
      (mk_params (SchemasObj [(''B'', 1), (''0'', 2)]) None) =
     Inr [(''name'', JStr ''0''), (''schema'', JRef 2),
          (''description'', JUndefined), (''strict'', JUndefined)]
   \<and> fst (hd [(''B'', 1::addr), (''0'', 2)]) = ''B''
   \<and> ''0'' \<noteq> ''B''"
  by (simp add: run_eval)

text \<open>
  C2, amended: for a mapping with two or more entries the projection succeeds and its
  name is the first key \<^verbatim>\<open>Object.keys\<close> lists. If some key is an array index, that is
  the array-index key of least numeric value; if none is, it is the first key in
  insertion order, so for keys inserted in the order \<open>B\<close>, \<open>A\<close> the name is \<open>B\<close>.
\<close>

theorem C2_first_key_wins:
  assumes "schemas (components (jsonSchema p)) = SchemasObj ps" and "2 \<le> length ps"
  shows "\<exists>name a rest.
           typiaJsonToOpenAIJsonSchema h p =
             Inr ((''name'', JStr name) # (''schema'', JRef a) # rest)
         \<and> name = hd (Object_keys ps) \<and> map_of ps name = Some a
         \<and> ((\<exists>k\<in>fst ` set ps. is_array_index k) \<longrightarrow>
               is_array_index name \<and> name \<in> fst ` set ps
               \<and> (\<forall>k\<in>fst ` set ps. is_array_index k \<longrightarrow> index_value name \<le> index_value k))
         \<and> (\<not> (\<exists>k\<in>fst ` set ps. is_array_index k) \<longrightarrow> name = fst (hd ps))
         \<and> (map fst ps = [''B'', ''A''] \<longrightarrow> name = ''B'')"
proof -
  from assms(2) have ne: "ps \<noteq> []" by auto
  from project_success [OF assms(1) ne, of h] obtain name a where
    n: "name = hd (Object_keys ps)" and a: "map_of ps name = Some a" and
    r: "typiaJsonToOpenAIJsonSchema h p =
          Inr [(''name'', JStr name), (''schema'', JRef a),
               (''description'', get_prop (h a) ''description''),
               (''strict'', destructured (strict p))]"
    by blast
  have i: "(\<exists>k\<in>fst ` set ps. is_array_index k) \<longrightarrow>
             is_array_index name \<and> name \<in> fst ` set ps
             \<and> (\<forall>k\<in>fst ` set ps. is_array_index k \<longrightarrow> index_value name \<le> index_value k)"
    using hd_Object_keys_index [of ps] n by blast
  have o: "\<not> (\<exists>k\<in>fst ` set ps. is_array_index k) \<longrightarrow> name = fst (hd ps)"
  proof
    assume "\<not> (\<exists>k\<in>fst ` set ps. is_array_index k)"
    then have "list_all (\<lambda>k. \<not> is_array_index k) (map fst ps)"
      by (auto simp: list_all_iff)
    then have "Object_keys ps = map fst ps" by (rule Object_keys_no_index)
    with n ne show "name = fst (hd ps)" by (simp add: hd_map)
  qed
  have b: "map fst ps = [''B'', ''A''] \<longrightarrow> name = ''B''"
  proof
    assume m: "map fst ps = [''B'', ''A'']"
    then have "Object_keys ps = [''B'', ''A'']"
      by (simp add: Object_keys_def Let_def is_array_index_def is_digit_def)
    with n show "name = ''B''" by simp
  qed
  from r n a i o b show ?thesis by blast
qed

text \<open>
  The amended C2 at the mapping with keys \<open>B\<close>, \<open>A\<close> (no array index), and at the
  mapping with keys \<open>B\<close>, \<open>0\<close> (one array index).
\<close>

theorem C2_first_key_wins_witness:
  "schemas (components (jsonSchema (mk_params (SchemasObj [(''B'', 1), (''A'', 2)]) None)))
     = SchemasObj [(''B'', 1), (''A'', 2)]
   \<and> 2 \<le> length [(''B'', 1::addr), (''A'', 2)]
   \<and> typiaJsonToOpenAIJsonSchema example_store
        (mk_params (SchemasObj [(''B'', 1), (''A'', 2)]) None) =
      Inr [(''name'', JStr ''B''), (''schema'', JRef 1),
           (''description'', JStr ''an output''), (''strict'', JUndefined)]
   \<and> is_array_index ''0''
   \<and> hd (Object_keys [(''B'', 1::addr), (''0'', 2)]) = ''0''"
proof -
  let ?ps = "[(''B'', 1::addr), (''A'', 2)]"
  let ?p = "mk_params (SchemasObj ?ps) None"
  let ?qs = "[(''B'', 1::addr), (''0'', 2)]"
  let ?q = "mk_params (SchemasObj ?qs) None"
  have s: "schemas (components (jsonSchema ?p)) = SchemasObj ?ps"
    by (simp add: mk_params_def)
  have l: "2 \<le> length ?ps" by simp
  from C2_first_key_wins [OF s l, of example_store] obtain name a rest where
    r: "typiaJsonToOpenAIJsonSchema example_store ?p =
          Inr ((''name'', JStr name) # (''schema'', JRef a) # rest)"
    and b: "map fst ?ps = [''B'', ''A''] \<longrightarrow> name = ''B''"
    by blast
  from b have n: "name = ''B''" by simp
  have t: "schemas (components (jsonSchema ?q)) = SchemasObj ?qs"
    by (simp add: mk_params_def)
  have m: "2 \<le> length ?qs" by simp
  have z: "is_array_index ''0''" by (simp add: key_eval)
  have y: "\<not> is_array_index ''B''" by (simp add: key_eval)
  from C2_first_key_wins [OF t m, of example_store] obtain name' where
    h: "name' = hd (Object_keys ?qs)"
    and c: "(\<exists>k\<in>fst ` set ?qs. is_array_index k) \<longrightarrow>
              is_array_index name' \<and> name' \<in> fst ` set ?qs"
    by blast
  from z have "\<exists>k\<in>fst ` set ?qs. is_array_index k" by simp
  with c have "is_array_index name'" and "name' \<in> fst ` set ?qs" by blast+
  with y have "name' = ''0''" by auto
  with h have k: "hd (Object_keys ?qs) = ''0''" by simp
  from r n s l z k show ?thesis by (simp add: run_eval)
qed

text \<open>
  C3: the projection fails with \<open>MissingSchemaMap\<close> exactly when the schema mapping is
  \<^verbatim>\<open>undefined\<close> (absent) or \<^verbatim>\<open>null\<close>; on that failure no record is returned, neither
  a partial one nor a default.
\<close>

theorem C3_missing_schema_map:
  "(typiaJsonToOpenAIJsonSchema h p = Inl MissingSchemaMap)
     = (schemas (components (jsonSchema p)) = SchemasUndefined
        \<or> schemas (components (jsonSchema p)) = SchemasNull)
   \<and> (typiaJsonToOpenAIJsonSchema h p = Inl MissingSchemaMap
        \<longrightarrow> (\<forall>r. typiaJsonToOpenAIJsonSchema h p \<noteq> Inr r))"
proof -
  have "typiaJsonToOpenAIJsonSchema h p \<noteq> Inl MissingSchemaMap"
    if "schemas (components (jsonSchema p)) = SchemasObj ps" for ps
  proof (cases "ps = []")
    case True
    with that show ?thesis using project_empty [of p h] by simp
  next
    case False
    from project_success [OF that False, of h] show ?thesis by auto
  qed
  then have "typiaJsonToOpenAIJsonSchema h p = Inl MissingSchemaMap
      \<Longrightarrow> schemas (components (jsonSchema p)) = SchemasUndefined
          \<or> schemas (components (jsonSchema p)) = SchemasNull"
    by (cases "schemas (components (jsonSchema p))") auto
  then show ?thesis using project_missing [of p h] by auto
qed

text \<open>C3 at a null, an absent, an empty and a one-entry mapping.\<close>

theorem C3_missing_schema_map_witness:
  "typiaJsonToOpenAIJsonSchema example_store (mk_params SchemasNull (Some (JBool True)))
     = Inl MissingSchemaMap
   \<and> typiaJsonToOpenAIJsonSchema example_store (mk_params SchemasUndefined None)
     = Inl MissingSchemaMap
   \<and> typiaJsonToOpenAIJsonSchema example_store (mk_params (SchemasObj []) None)
     \<noteq> Inl MissingSchemaMap
   \<and> typiaJsonToOpenAIJsonSchema example_store (mk_params (SchemasObj [(''Output'', 1)]) None)
     \<noteq> Inl MissingSchemaMap"
  using C3_missing_schema_map [of example_store "mk_params SchemasNull (Some (JBool True))"]
        C3_missing_schema_map [of example_store "mk_params SchemasUndefined None"]
        C3_missing_schema_map [of example_store "mk_params (SchemasObj []) None"]
        C3_missing_schema_map [of example_store "mk_params (SchemasObj [(''Output'', 1)]) None"]
  by (simp add: mk_params_def)

text \<open>
  C4: the projection fails with \<open>NoSchemaFound\<close> exactly when the schema mapping is
  present and has no entries; with at least one entry it returns a record; and no failure
  other than \<open>MissingSchemaMap\<close> and \<open>NoSchemaFound\<close> ever occurs.
\<close>

theorem C4_no_schema_found:
  "(typiaJsonToOpenAIJsonSchema h p = Inl NoSchemaFound)
     = (schemas (components (jsonSchema p)) = SchemasObj [])
   \<and> (\<forall>ps. schemas (components (jsonSchema p)) = SchemasObj ps \<and> ps \<noteq> []
          \<longrightarrow> (\<exists>r. typiaJsonToOpenAIJsonSchema h p = Inr r))
   \<and> (\<forall>e. typiaJsonToOpenAIJsonSchema h p = Inl e
          \<longrightarrow> e = MissingSchemaMap \<or> e = NoSchemaFound)"
proof -
  have tot: "\<exists>r. typiaJsonToOpenAIJsonSchema h p = Inr r"
    if "schemas (components (jsonSchema p)) = SchemasObj ps" and "ps \<noteq> []" for ps
    using project_success [OF that, of h] by blast
  have only: "e = MissingSchemaMap \<or> e = NoSchemaFound"
    if "typiaJsonToOpenAIJsonSchema h p = Inl e" for e
    using project_cases [of h p] that by auto
  have "schemas (components (jsonSchema p)) = SchemasObj []"
    if f: "typiaJsonToOpenAIJsonSchema h p = Inl NoSchemaFound"
  proof (cases "schemas (components (jsonSchema p))")
    case SchemasUndefined
    with f show ?thesis using project_missing [of p h] by simp
  next
    case SchemasNull
    with f show ?thesis using project_missing [of p h] by simp
  next
    case (SchemasObj ps)
    with f tot [of ps] show ?thesis by (cases "ps = []") auto
  qed
  then have "(typiaJsonToOpenAIJsonSchema h p = Inl NoSchemaFound)
     = (schemas (components (jsonSchema p)) = SchemasObj [])"
    using project_empty [of p h] by blast
  with tot only show ?thesis by blast
qed

text \<open>C4 at an empty, a null and a two-entry mapping.\<close>

theorem C4_no_schema_found_witness:
  "typiaJsonToOpenAIJsonSchema example_store (mk_params (SchemasObj []) None)
     = Inl NoSchemaFound
   \<and> typiaJsonToOpenAIJsonSchema example_store (mk_params SchemasNull None)
     \<noteq> Inl NoSchemaFound
   \<and> typiaJsonToOpenAIJsonSchema example_store
        (mk_params (SchemasObj [(''B'', 1), (''A'', 2)]) None) =
      Inr [(''name'', JStr ''B''), (''schema'', JRef 1),
           (''description'', JStr ''an output''), (''strict'', JUndefined)]"
proof -
  let ?p = "mk_params (SchemasObj [(''B'', 1), (''A'', 2)]) None"
  have s: "schemas (components (jsonSchema ?p)) = SchemasObj [(''B'', 1), (''A'', 2)]"
    by (simp add: mk_params_def)
  from C4_no_schema_found [of example_store ?p] s
  have "\<exists>r. typiaJsonToOpenAIJsonSchema example_store ?p = Inr r" by blast
  then have "typiaJsonToOpenAIJsonSchema example_store ?p =
      Inr [(''name'', JStr ''B''), (''schema'', JRef 1),
           (''description'', JStr ''an output''), (''strict'', JUndefined)]"
    by (simp add: run_eval)
  then show ?thesis
    using C4_no_schema_found [of example_store "mk_params (SchemasObj []) None"]
          C4_no_schema_found [of example_store "mk_params SchemasNull None"]
    by (simp add: mk_params_def)
qed

text \<open>
  C5, as stated, puts the discriminator under the key \<open>kind\<close>. On the input of C1 the
  envelope is not the record with the keys \<open>kind\<close> and \<open>json_schema\<close>: the module
  writes the discriminator under \<open>type\<close>.
\<close>

theorem C5_kind_key_counterexample:
  "typiaJsonToOpenAIJsonSchema example_store
      (mk_params (SchemasObj [(''Output'', 1)]) (Some (JBool True))) =
     Inr [(''name'', JStr ''Output''), (''schema'', JRef 1),
          (''description'', JStr ''an output''), (''strict'', JBool True)]
   \<and> typiaJsonToOpenAIResponse example_store
      (mk_params (SchemasObj [(''Output'', 1)]) (Some (JBool True))) \<noteq>
     Inr [(''kind'', JStr ''json_schema''),
          (''json_schema'', JObj [(''name'', JStr ''Output''), (''schema'', JRef 1),
             (''description'', JStr ''an output''), (''strict'', JBool True)])]"
  by (simp add: run_eval)

text \<open>
  C5, amended: whenever the projection succeeds, the envelope is the record that carries
  the discriminator value \<open>json_schema\<close> under the key \<open>type\<close> and the unchanged
  projected record under the key \<open>json_schema\<close>.
\<close>

theorem C5_envelope:
  assumes "typiaJsonToOpenAIJsonSchema h p = Inr r"
  shows "typiaJsonToOpenAIResponse h p =
           Inr [(''type'', JStr ''json_schema''), (''json_schema'', JObj r)]"
  using assms by (simp add: typiaJsonToOpenAIResponse_def)

text \<open>The amended C5 on the input of C1.\<close>

theorem C5_envelope_witness:
  "typiaJsonToOpenAIJsonSchema example_store
      (mk_params (SchemasObj [(''Output'', 1)]) (Some (JBool True))) =
     Inr [(''name'', JStr ''Output''), (''schema'', JRef 1),
          (''description'', JStr ''an output''), (''strict'', JBool True)]
   \<and> typiaJsonToOpenAIResponse example_store
      (mk_params (SchemasObj [(''Output'', 1)]) (Some (JBool True))) =
     Inr [(''type'', JStr ''json_schema''),
          (''json_schema'', JObj [(''name'', JStr ''Output''), (''schema'', JRef 1),
             (''description'', JStr ''an output''), (''strict'', JBool True)])]"
proof -
  let ?p = "mk_params (SchemasObj [(''Output'', 1)]) (Some (JBool True))"
  have r: "typiaJsonToOpenAIJsonSchema example_store ?p =
     Inr [(''name'', JStr ''Output''), (''schema'', JRef 1),
          (''description'', JStr ''an output''), (''strict'', JBool True)]"
    by (simp add: run_eval)
  from C5_envelope [OF r] r show ?thesis by simp
qed

text \<open>
  C6: the envelope fails exactly when the projection fails on the same input, and with
  the same error: \<open>MissingSchemaMap\<close> on an absent or null mapping, \<open>NoSchemaFound\<close> on
  an empty one; where the projection succeeds the envelope succeeds too.
\<close>

theorem C6_envelope_failures:
  "(\<forall>e. (typiaJsonToOpenAIResponse h p = Inl e) = (typiaJsonToOpenAIJsonSchema h p = Inl e))
   \<and> (schemas (components (jsonSchema p)) = SchemasUndefined
        \<or> schemas (components (jsonSchema p)) = SchemasNull
      \<longrightarrow> typiaJsonToOpenAIResponse h p = Inl MissingSchemaMap)
   \<and> (schemas (components (jsonSchema p)) = SchemasObj []
      \<longrightarrow> typiaJsonToOpenAIResponse h p = Inl NoSchemaFound)
   \<and> ((\<exists>r. typiaJsonToOpenAIJsonSchema h p = Inr r)
      \<longrightarrow> (\<exists>r. typiaJsonToOpenAIResponse h p = Inr r))"
proof -
  have a: "(typiaJsonToOpenAIResponse h p = Inl e) = (typiaJsonToOpenAIJsonSchema h p = Inl e)"
    for e
    by (cases "typiaJsonToOpenAIJsonSchema h p")
       (simp_all add: typiaJsonToOpenAIResponse_def)
  have b: "typiaJsonToOpenAIResponse h p = Inl MissingSchemaMap"
    if "schemas (components (jsonSchema p)) = SchemasUndefined
        \<or> schemas (components (jsonSchema p)) = SchemasNull"
    using project_missing [OF that, of h] by (simp add: a)
  have c: "typiaJsonToOpenAIResponse h p = Inl NoSchemaFound"
    if "schemas (components (jsonSchema p)) = SchemasObj []"
    using project_empty [OF that, of h] by (simp add: a)
  have d: "\<exists>r'. typiaJsonToOpenAIResponse h p = Inr r'"
    if "typiaJsonToOpenAIJsonSchema h p = Inr r" for r
    using that by (simp add: typiaJsonToOpenAIResponse_def)
  from a b c d show ?thesis by blast
qed

text \<open>C6 at a null and at an empty mapping.\<close>

theorem C6_envelope_failures_witness:
  "typiaJsonToOpenAIResponse example_store (mk_params SchemasNull (Some (JBool True)))
     = Inl MissingSchemaMap
   \<and> typiaJsonToOpenAIJsonSchema example_store (mk_params SchemasNull (Some (JBool True)))
     = Inl MissingSchemaMap
   \<and> typiaJsonToOpenAIResponse example_store (mk_params (SchemasObj []) (Some (JBool True)))
     = Inl NoSchemaFound
   \<and> typiaJsonToOpenAIJsonSchema example_store (mk_params (SchemasObj []) (Some (JBool True)))
     = Inl NoSchemaFound"
proof -
  let ?p = "mk_params SchemasNull (Some (JBool True))"
  let ?q = "mk_params (SchemasObj []) (Some (JBool True))"
  have m: "schemas (components (jsonSchema ?p)) = SchemasUndefined
           \<or> schemas (components (jsonSchema ?p)) = SchemasNull"
    by (simp add: mk_params_def)
  have n: "schemas (components (jsonSchema ?q)) = SchemasObj []"
    by (simp add: mk_params_def)
  from C6_envelope_failures [of example_store ?p] m
  have 1: "typiaJsonToOpenAIResponse example_store ?p = Inl MissingSchemaMap"
    and 2: "typiaJsonToOpenAIJsonSchema example_store ?p = Inl MissingSchemaMap"
    by blast+
  from C6_envelope_failures [of example_store ?q] n
  have 3: "typiaJsonToOpenAIResponse example_store ?q = Inl NoSchemaFound"
    and 4: "typiaJsonToOpenAIJsonSchema example_store ?q = Inl NoSchemaFound"
    by blast+
  from 1 2 3 4 show ?thesis by simp
qed

text \<open>
  C7: on success the \<open>strict\<close> field of the result is the value the caller's flag was
  bound to, whatever it is: \<open>true\<close> stays \<open>true\<close>, \<open>false\<close> stays \<open>false\<close>,
  \<^verbatim>\<open>null\<close> stays \<^verbatim>\<open>null\<close>, and a flag left out reads as \<^verbatim>\<open>undefined\<close>; these four
  outcomes are pairwise different, so none is collapsed into another.
\<close>

theorem C7_strict_forwarded:
  assumes "typiaJsonToOpenAIJsonSchema h p = Inr r"
  shows "map_of r ''strict'' = Some (destructured (strict p))
         \<and> (\<forall>v. strict p = Some v \<longrightarrow> get_prop r ''strict'' = v)
         \<and> (strict p = Some (JBool True) \<longrightarrow> get_prop r ''strict'' = JBool True)
         \<and> (strict p = Some (JBool False) \<longrightarrow> get_prop r ''strict'' = JBool False)
         \<and> (strict p = Some JNull \<longrightarrow> get_prop r ''strict'' = JNull)
         \<and> (strict p = None \<longrightarrow> get_prop r ''strict'' = JUndefined)
         \<and> inj_on destructured {Some (JBool True), Some (JBool False), Some JNull, None}"
proof -
  from project_InrD [OF assms] have m: "map_of r ''strict'' = Some (destructured (strict p))"
    by auto
  then have g: "get_prop r ''strict'' = destructured (strict p)"
    by (simp add: get_prop_def)
  have i: "inj_on destructured {Some (JBool True), Some (JBool False), Some JNull, None}"
    by (simp add: inj_on_def destructured_def)
  from m g i show ?thesis by (simp add: destructured_def)
qed

text \<open>C7 with the flag \<^verbatim>\<open>null\<close> and with the flag left out.\<close>

theorem C7_strict_forwarded_witness:
  "typiaJsonToOpenAIJsonSchema example_store (mk_params (SchemasObj [(''Output'', 1)]) (Some JNull))
     = Inr [(''name'', JStr ''Output''), (''schema'', JRef 1),
            (''description'', JStr ''an output''), (''strict'', JNull)]
   \<and> get_prop [(''name'', JStr ''Output''), (''schema'', JRef 1),
            (''description'', JStr ''an output''), (''strict'', JNull)] ''strict'' = JNull
   \<and> typiaJsonToOpenAIJsonSchema example_store (mk_params (SchemasObj [(''Output'', 1)]) None)
     = Inr [(''name'', JStr ''Output''), (''schema'', JRef 1),
            (''description'', JStr ''an output''), (''strict'', JUndefined)]
   \<and> get_prop [(''name'', JStr ''Output''), (''schema'', JRef 1),
            (''description'', JStr ''an output''), (''strict'', JUndefined)] ''strict''
       = JUndefined"
proof -
  let ?p = "mk_params (SchemasObj [(''Output'', 1)]) (Some JNull)"
  let ?q = "mk_params (SchemasObj [(''Output'', 1)]) None"
  have r: "typiaJsonToOpenAIJsonSchema example_store ?p
     = Inr [(''name'', JStr ''Output''), (''schema'', JRef 1),
            (''description'', JStr ''an output''), (''strict'', JNull)]"
    by (simp add: run_eval)
  have s: "typiaJsonToOpenAIJsonSchema example_store ?q
     = Inr [(''name'', JStr ''Output''), (''schema'', JRef 1),
            (''description'', JStr ''an output''), (''strict'', JUndefined)]"
    by (simp add: run_eval)
  have 1: "strict ?p = Some JNull" and 2: "strict ?q = None"
    by (simp_all add: mk_params_def)
  from C7_strict_forwarded [OF r] 1 C7_strict_forwarded [OF s] 2 r s
  show ?thesis by simp
qed

text \<open>
  C8: on success, when the selected schema body (the one the result's \<open>schema\<close> field
  refers to) has no top-level \<open>description\<close>, reading the result's \<open>description\<close>
  gives \<^verbatim>\<open>undefined\<close>: not the empty string and not \<^verbatim>\<open>null\<close>.
\<close>

theorem C8_no_description:
  assumes "typiaJsonToOpenAIJsonSchema h p = Inr r"
    and "map_of r ''schema'' = Some (JRef a)"
    and "map_of (h a) ''description'' = None"
  shows "get_prop r ''description'' = JUndefined
         \<and> get_prop r ''description'' \<noteq> JStr ''''
         \<and> get_prop r ''description'' \<noteq> JNull"
proof -
  from project_InrD [OF assms(1)] obtain name b where
    r: "r = [(''name'', JStr name), (''schema'', JRef b),
             (''description'', get_prop (h b) ''description''),
             (''strict'', destructured (strict p))]"
    by blast
  with assms(2) have "b = a" by simp
  with r assms(3) have "get_prop r ''description'' = JUndefined"
    by (simp add: get_prop_def)
  then show ?thesis by simp
qed

text \<open>C8 for the body at address 2, which has no description.\<close>

theorem C8_no_description_witness:
  "typiaJsonToOpenAIJsonSchema example_store (mk_params (SchemasObj [(''Plain'', 2)]) None)
     = Inr [(''name'', JStr ''Plain''), (''schema'', JRef 2),
            (''description'', JUndefined), (''strict'', JUndefined)]
   \<and> map_of (example_store 2) ''description'' = None
   \<and> get_prop [(''name'', JStr ''Plain''), (''schema'', JRef 2),
            (''description'', JUndefined), (''strict'', JUndefined)] ''description''
       = JUndefined"
proof -
  let ?p = "mk_params (SchemasObj [(''Plain'', 2)]) None"
  let ?r = "[(''name'', JStr ''Plain''), (''schema'', JRef 2),
            (''description'', JUndefined), (''strict'', JUndefined)]"
  have r: "typiaJsonToOpenAIJsonSchema example_store ?p = Inr ?r"
    by (simp add: run_eval)
  have s: "map_of ?r ''schema'' = Some (JRef 2)" by simp
  have d: "map_of (example_store 2) ''description'' = None"
    by (simp add: example_store_def)
  from C8_no_description [OF r s d] r d show ?thesis by simp
qed

text \<open>
  C9: the two functions depend on nothing but their input. Take the store at two calls,
  \<open>h\<close> and \<open>h'\<close>, which may differ anywhere except in the schema bodies of the
  parameter object (the input is not mutated between the calls): both calls give the same
  outcome, the same record or the same failure, for the projection and for the envelope.
\<close>

theorem C9_deterministic:
  assumes "\<forall>a\<in>body_refs p. h' a = h a"
  shows "typiaJsonToOpenAIJsonSchema h' p = typiaJsonToOpenAIJsonSchema h p
         \<and> typiaJsonToOpenAIResponse h' p = typiaJsonToOpenAIResponse h p"
  using project_store_frame [OF assms]
  by (simp add: typiaJsonToOpenAIResponse_def)

text \<open>C9 for two stores that differ at address 5, outside the input.\<close>

theorem C9_deterministic_witness:
  "body_refs (mk_params (SchemasObj [(''Output'', 1)]) (Some (JBool True))) = {1}
   \<and> (example_store(5 := [(''other'', JNull)])) 1 = example_store 1
   \<and> (example_store(5 := [(''other'', JNull)])) 5 \<noteq> example_store 5
   \<and> typiaJsonToOpenAIJsonSchema (example_store(5 := [(''other'', JNull)]))
        (mk_params (SchemasObj [(''Output'', 1)]) (Some (JBool True)))
     = typiaJsonToOpenAIJsonSchema example_store
        (mk_params (SchemasObj [(''Output'', 1)]) (Some (JBool True)))
   \<and> typiaJsonToOpenAIResponse (example_store(5 := [(''other'', JNull)]))
        (mk_params (SchemasObj [(''Output'', 1)]) (Some (JBool True)))
     = typiaJsonToOpenAIResponse example_store
        (mk_params (SchemasObj [(''Output'', 1)]) (Some (JBool True)))"
proof -
  let ?p = "mk_params (SchemasObj [(''Output'', 1)]) (Some (JBool True))"
  let ?h' = "example_store(5 := [(''other'', JNull)])"
  have b: "body_refs ?p = {1}"
    by (simp add: body_refs_def mk_params_def)
  have e: "?h' 1 = example_store 1" by simp
  have d: "?h' 5 \<noteq> example_store 5" by (simp add: example_store_def)
  have u: "\<forall>a\<in>body_refs ?p. ?h' a = example_store a" unfolding b by simp
  from C9_deterministic [OF u] b e d show ?thesis by blast
qed

text \<open>
  C10: on success the returned record has exactly the keys \<open>name\<close>, \<open>schema\<close>,
  \<open>description\<close>, \<open>strict\<close>, in this order. When the selected body has no top-level
  description the key \<open>description\<close> is present and bound to \<^verbatim>\<open>undefined\<close>, and when the
  caller left the flag out the key \<open>strict\<close> is present and bound to \<^verbatim>\<open>undefined\<close>.
\<close>

theorem C10_keys_always_present:
  assumes "typiaJsonToOpenAIJsonSchema h p = Inr r"
  shows "map fst r = [''name'', ''schema'', ''description'', ''strict'']
         \<and> (\<forall>a. map_of r ''schema'' = Some (JRef a) \<and> map_of (h a) ''description'' = None
               \<longrightarrow> map_of r ''description'' = Some JUndefined)
         \<and> (strict p = None \<longrightarrow> map_of r ''strict'' = Some JUndefined)"
proof -
  from project_InrD [OF assms] obtain name b where
    r: "r = [(''name'', JStr name), (''schema'', JRef b),
             (''description'', get_prop (h b) ''description''),
             (''strict'', destructured (strict p))]"
    by blast
  then show ?thesis by (simp add: get_prop_def destructured_def)
qed

text \<open>C10 for the body without description and the flag left out.\<close>

theorem C10_keys_always_present_witness:
  "typiaJsonToOpenAIJsonSchema example_store (mk_params (SchemasObj [(''Plain'', 2)]) None)
     = Inr [(''name'', JStr ''Plain''), (''schema'', JRef 2),
            (''description'', JUndefined), (''strict'', JUndefined)]
   \<and> map_of (example_store 2) ''description'' = None
   \<and> strict (mk_params (SchemasObj [(''Plain'', 2)]) None) = None
   \<and> map_of [(''name'', JStr ''Plain''), (''schema'', JRef 2),
            (''description'', JUndefined), (''strict'', JUndefined)] ''description''
       = Some JUndefined
   \<and> map_of [(''name'', JStr ''Plain''), (''schema'', JRef 2),
            (''description'', JUndefined), (''strict'', JUndefined)] ''strict''
       = Some JUndefined"
proof -
  let ?p = "mk_params (SchemasObj [(''Plain'', 2)]) None"
  let ?r = "[(''name'', JStr ''Plain''), (''schema'', JRef 2),
            (''description'', JUndefined), (''strict'', JUndefined)]"
  have r: "typiaJsonToOpenAIJsonSchema example_store ?p = Inr ?r"
    by (simp add: run_eval)
  have d: "map_of (example_store 2) ''description'' = None"
    by (simp add: example_store_def)
  have f: "strict ?p = None" by (simp add: mk_params_def)
  from C10_keys_always_present [OF r] r d f show ?thesis by simp
qed

end
